theory Spec2Isabelle
  imports Complex_Main
begin

section \<open>Gestor Financeiro: a shallow embedding of app.py\<close>

text \<open>
  The program keeps five JSON files (transactions, recurring templates, holdings, goals
  and a configuration dictionary), reads them through a memoising loader and rewrites a
  whole file on every change.  The embedding follows the source function by function.
  Python exceptions are values of \<open>exn\<close>; a function that can raise returns a sum with
  the exception on the left.  Python floats are idealised as real numbers.  Strings are
  lists of 8-bit characters; the case conversions and the whitespace test act on the
  ASCII range and leave every other character alone.
\<close>

datatype exn = KeyError | IndexError | ValueError | AttributeError | TypeError
  | ZeroDivisionError | OSError | ProviderError

subsection \<open>String primitives\<close>

definition upper_letters :: string where
  "upper_letters = ''ABCDEFGHIJKLMNOPQRSTUVWXYZ''"

definition lower_letters :: string where
  "lower_letters = ''abcdefghijklmnopqrstuvwxyz''"

definition decimal_digits :: string where
  "decimal_digits = ''0123456789''"

definition is_digit :: "char \<Rightarrow> bool" where
  "is_digit c = (c \<in> set decimal_digits)"

text \<open>Tab, line feed, vertical tab, form feed, carriage return, the four separators
  and the space.\<close>

definition is_space :: "char \<Rightarrow> bool" where
  "is_space c = (c \<in> set [CHR 0x09, CHR 0x0A, CHR 0x0B, CHR 0x0C, CHR 0x0D,
                            CHR 0x1C, CHR 0x1D, CHR 0x1E, CHR 0x1F, CHR 0x20])"

definition lower_char :: "char \<Rightarrow> char" where
  "lower_char c = (case map_of (zip upper_letters lower_letters) c of None \<Rightarrow> c | Some d \<Rightarrow> d)"

definition upper_char :: "char \<Rightarrow> char" where
  "upper_char c = (case map_of (zip lower_letters upper_letters) c of None \<Rightarrow> c | Some d \<Rightarrow> d)"

text \<open>\<open>str.lower()\<close> and \<open>str.upper()\<close>.\<close>

definition lower :: "string \<Rightarrow> string" where
  "lower s = map lower_char s"

definition upper :: "string \<Rightarrow> string" where
  "upper s = map upper_char s"

text \<open>\<open>str.strip()\<close>: whitespace is dropped at both ends.\<close>

definition strip :: "string \<Rightarrow> string" where
  "strip s = rev (dropWhile is_space (rev (dropWhile is_space s)))"

text \<open>\<open>needle in hay\<close> for strings: \<open>needle\<close> occurs as a contiguous block.\<close>

fun is_prefix :: "string \<Rightarrow> string \<Rightarrow> bool" where
  "is_prefix [] ys = True"
| "is_prefix (x # xs) [] = False"
| "is_prefix (x # xs) (y # ys) = (x = y \<and> is_prefix xs ys)"


text \<open>\<open>s.split('-')\<close>: the pieces between the separators, empty pieces kept.\<close>

fun split_on :: "char \<Rightarrow> string \<Rightarrow> string list" where
  "split_on sep [] = [[]]"
| "split_on sep (c # cs) =
     (if c = sep then [] # split_on sep cs
      else (case split_on sep cs of
              [] \<Rightarrow> [[c]]
            | p # ps \<Rightarrow> (c # p) # ps))"

text \<open>\<open>s.replace(old, '')\<close> for a non-empty \<open>old\<close>: every occurrence found in a scan
  from the left is removed.\<close>

fun remove_all :: "string \<Rightarrow> string \<Rightarrow> string" where
  "remove_all old [] = []"
| "remove_all old (c # cs) =
     (if old \<noteq> [] \<and> is_prefix old (c # cs)
      then remove_all old (drop (length old) (c # cs))
      else c # remove_all old cs)"

text \<open>
  \<open>int(s)\<close> on a string: surrounding whitespace is ignored, one sign may lead, and the
  digits may be grouped by single underscores.  Anything else raises \<open>ValueError\<close>.
\<close>

definition digit_val :: "char \<Rightarrow> int" where
  "digit_val c = (case map_of (zip decimal_digits [0, 1, 2, 3, 4, 5, 6, 7, 8, 9]) c of
                    None \<Rightarrow> 0 | Some v \<Rightarrow> v)"

fun digits_ok :: "string \<Rightarrow> bool" where
  "digits_ok [] = False"
| "digits_ok [c] = is_digit c"
| "digits_ok (c # d # cs) =
     (is_digit c \<and> (if d = CHR ''_'' then digits_ok cs else digits_ok (d # cs)))"

definition digits_value :: "string \<Rightarrow> int" where
  "digits_value s = foldl (\<lambda>acc c. 10 * acc + digit_val c) 0 (filter is_digit s)"

definition py_int :: "string \<Rightarrow> exn + int" where
  "py_int s =
     (case strip s of
        [] \<Rightarrow> Inl ValueError
      | c # cs \<Rightarrow>
          if c = CHR ''-'' then (if digits_ok cs then Inr (- digits_value cs) else Inl ValueError)
          else if c = CHR ''+'' then (if digits_ok cs then Inr (digits_value cs) else Inl ValueError)
          else if digits_ok (c # cs) then Inr (digits_value (c # cs)) else Inl ValueError)"

text \<open>List indexing with a non-negative constant index.\<close>

definition py_index :: "'a list \<Rightarrow> nat \<Rightarrow> exn + 'a" where
  "py_index xs i = (if i < length xs then Inr (xs ! i) else Inl IndexError)"

subsection \<open>Dates\<close>

text \<open>The value of \<open>datetime.now()\<close>, as far as the program reads it.\<close>

record datetime =
  year :: nat
  month :: nat
  day :: nat

definition is_leap :: "nat \<Rightarrow> bool" where
  "is_leap y = (y mod 4 = 0 \<and> (y mod 100 \<noteq> 0 \<or> y mod 400 = 0))"

text \<open>\<open>days_in_month\<close> of a timestamp in the given year and month.\<close>

definition days_in_month :: "nat \<Rightarrow> nat \<Rightarrow> nat" where
  "days_in_month y m =
     (if m = 2 then (if is_leap y then 29 else 28)
      else if m = 4 \<or> m = 6 \<or> m = 9 \<or> m = 11 then 30 else 31)"

definition digit_char :: "nat \<Rightarrow> char" where
  "digit_char n = decimal_digits ! (n mod 10)"

definition pad2 :: "nat \<Rightarrow> string" where
  "pad2 n = [digit_char (n div 10), digit_char n]"

definition pad4 :: "nat \<Rightarrow> string" where
  "pad4 n = [digit_char (n div 1000), digit_char (n div 100), digit_char (n div 10), digit_char n]"

text \<open>\<open>strftime('%Y-%m')\<close> and \<open>strftime('%Y-%m-%d')\<close>.\<close>

definition strftime_ym :: "datetime \<Rightarrow> string" where
  "strftime_ym d = pad4 (year d) @ ''-'' @ pad2 (month d)"

definition strftime_ymd :: "datetime \<Rightarrow> string" where
  "strftime_ymd d = pad4 (year d) @ ''-'' @ pad2 (month d) @ ''-'' @ pad2 (day d)"

text \<open>\<open>d.replace(day=n)\<close>: a day outside the month raises \<open>ValueError\<close>.\<close>

definition replace_day :: "datetime \<Rightarrow> int \<Rightarrow> exn + datetime" where
  "replace_day d n =
     (if 1 \<le> n \<and> n \<le> int (days_in_month (year d) (month d))
      then Inr (d\<lparr>day := nat n\<rparr>) else Inl ValueError)"

subsection \<open>Records of the five collections\<close>

datatype tipo = Despesa | Receita

datatype classe = Acoes | FIIs | Internacional | RendaFixa | Cripto | Outros

record lancamento =
  l_id :: string
  l_data :: string
  l_tipo :: tipo
  l_categoria :: string
  l_valor :: real
  l_descricao :: string

record recorrente =
  r_id :: string
  r_tipo :: tipo
  r_categoria :: string
  r_valor :: real
  r_data_base :: string

record investimento =
  i_id :: string
  i_ticker :: string
  i_classe :: classe
  i_quantidade :: real
  i_preco_medio :: real

record meta =
  m_id :: string
  m_nome :: string
  m_valor_alvo :: real

text \<open>The configuration dictionary; an absent key is \<open>None\<close>, and \<open>{}\<close> has no key.\<close>

record config =
  ultimo_backup :: "string option"
  ultimo_mes_recorrente :: "string option"
  metas_alocacao :: "(classe \<times> real) list option"

definition empty_config :: config where
  "empty_config = \<lparr>ultimo_backup = None, ultimo_mes_recorrente = None, metas_alocacao = None\<rparr>"

text \<open>
  What \<open>json.load\<close> can return: a list of dictionaries or the configuration dictionary.
  A dictionary of a list is one of the four record shapes; reading a key that the shape
  does not have raises \<open>KeyError\<close>.
\<close>

datatype item = Lanc lancamento | Rec recorrente | Inv investimento | Meta meta

datatype json = JList "item list" | JDict config

subsection \<open>The collection store: files, the loader's cache and the clock\<close>

text \<open>
  A file holds the serialisation of a value, or text that \<open>json.load\<close> rejects (an empty
  or cut-off file).  The cache of \<open>st.cache_data(ttl=60)\<close> maps the arguments of a call
  to the value returned and the second at which it was stored; every call receives its
  own copy, so a caller that mutates the list it got does not change the cache.  The
  clock does not move during a call; a statement about a later call sets it.
  Directories and the lock files beside the data files are not part of the state.
\<close>

datatype content = Text json | Truncated

record world =
  files :: "string \<rightharpoonup> content"
  cache :: "string \<times> bool \<rightharpoonup> json \<times> nat"
  clock :: nat

definition LANCAMENTOS_FILE :: string where
  "LANCAMENTOS_FILE = ''data/lancamentos.json''"

definition INVESTIMENTOS_FILE :: string where
  "INVESTIMENTOS_FILE = ''data/investimentos.json''"

definition METAS_FILE :: string where
  "METAS_FILE = ''data/metas.json''"

definition RECORRENTES_FILE :: string where
  "RECORRENTES_FILE = ''data/recorrentes.json''"

definition CONFIG_FILE :: string where
  "CONFIG_FILE = ''data/config.json''"

text \<open>The body of \<open>load_data\<close>: a missing or unparsable file gives \<open>{}\<close> or \<open>[]\<close>.\<close>

definition read_json :: "(string \<rightharpoonup> content) \<Rightarrow> string \<Rightarrow> bool \<Rightarrow> json" where
  "read_json fs file_path is_dict =
     (case fs file_path of
        Some (Text j) \<Rightarrow> j
      | _ \<Rightarrow> if is_dict then JDict empty_config else JList [])"

text \<open>\<open>load_data\<close> behind its cache: an entry younger than 60 seconds is returned,
  otherwise the body runs and its result is stored with the current time.\<close>

definition load_data :: "string \<Rightarrow> bool \<Rightarrow> world \<Rightarrow> json \<times> world" where
  "load_data file_path is_dict w =
     (let miss = (let v = read_json (files w) file_path is_dict
                  in (v, w\<lparr>cache := (cache w)((file_path, is_dict) \<mapsto> (v, clock w))\<rparr>))
      in case cache w (file_path, is_dict) of
           None \<Rightarrow> miss
         | Some (v, t) \<Rightarrow> if clock w < t + 60 then (v, w) else miss)"

text \<open>
  What can go wrong in \<open>save_data\<close>, chosen by the environment: the lock cannot be taken,
  \<open>open(file_path, 'w')\<close> is refused, or the write fails after \<open>open\<close> has emptied
  the file.
\<close>

datatype fault = NoFault | LockFails | OpenFails | DumpFails

definition save_data :: "json \<Rightarrow> string \<Rightarrow> fault \<Rightarrow> world \<Rightarrow> (exn + unit) \<times> world" where
  "save_data data file_path f w =
     (case f of
        LockFails \<Rightarrow> (Inl OSError, w)
      | OpenFails \<Rightarrow> (Inl OSError, w)
      | DumpFails \<Rightarrow> (Inl OSError, w\<lparr>files := (files w)(file_path \<mapsto> Truncated)\<rparr>)
      | NoFault \<Rightarrow> (Inr (), w\<lparr>files := (files w)(file_path \<mapsto> Text data), cache := Map.empty\<rparr>))"

subsection \<open>Daily backup\<close>

definition files_to_backup :: "string list" where
  "files_to_backup = [LANCAMENTOS_FILE, INVESTIMENTOS_FILE, RECORRENTES_FILE, METAS_FILE]"

text \<open>\<open>os.path.basename\<close>: what follows the last slash.\<close>

definition basename :: "string \<Rightarrow> string" where
  "basename p = rev (takeWhile (\<lambda>c. c \<noteq> CHR ''/'') (rev p))"

definition backup_path :: "string \<Rightarrow> string \<Rightarrow> string" where
  "backup_path file_path hoje_str = ''data/backup/'' @ basename file_path @ ''_'' @ hoje_str @ ''.json''"



subsection \<open>Recurring transactions\<close>

text \<open>\<open>int(recorrente['data_base'].split('-')[2])\<close>.\<close>

definition dia_criacao :: "recorrente \<Rightarrow> exn + int" where
  "dia_criacao recorrente =
     (case py_index (split_on CHR ''-'' (r_data_base recorrente)) 2 of
        Inl e \<Rightarrow> Inl e
      | Inr s \<Rightarrow> py_int s)"

text \<open>
  One pass of the loop body of \<open>processar_recorrentes\<close>: the day of \<open>data_base\<close> is read,
  bounded by the length of the current month, and put into today's date.  \<open>uid\<close> is the
  value of \<open>str(uuid.uuid4())\<close> in this pass.  An entry of the list that is not a
  template has no \<open>data_base\<close>.
\<close>

definition novo_lancamento :: "datetime \<Rightarrow> string \<Rightarrow> item \<Rightarrow> exn + lancamento" where
  "novo_lancamento hoje uid it =
     (case it of
        Rec recorrente \<Rightarrow>
          (case dia_criacao recorrente of
             Inl e \<Rightarrow> Inl e
           | Inr d \<Rightarrow>
               let dia_lancamento = min d (int (days_in_month (year hoje) (month hoje)))
               in (case replace_day hoje dia_lancamento of
                     Inl e \<Rightarrow> Inl e
                   | Inr data_lancamento \<Rightarrow>
                       Inr \<lparr>l_id = uid,
                            l_data = strftime_ymd data_lancamento,
                            l_tipo = r_tipo recorrente,
                            l_categoria = r_categoria recorrente,
                            l_valor = r_valor recorrente,
                            l_descricao = ''(Recorrente) '' @ r_categoria recorrente\<rparr>))
      | _ \<Rightarrow> Inl KeyError)"

text \<open>The loop: \<open>uuid4 i\<close> is the identifier drawn in pass \<open>i\<close>; the first exception ends it.\<close>

fun novos_lancamentos :: "datetime \<Rightarrow> (nat \<Rightarrow> string) \<Rightarrow> nat \<Rightarrow> item list \<Rightarrow> exn + lancamento list" where
  "novos_lancamentos hoje uuid4 i [] = Inr []"
| "novos_lancamentos hoje uuid4 i (it # rest) =
     (case novo_lancamento hoje (uuid4 i) it of
        Inl e \<Rightarrow> Inl e
      | Inr l \<Rightarrow>
          (case novos_lancamentos hoje uuid4 (Suc i) rest of
             Inl e \<Rightarrow> Inl e
           | Inr ls \<Rightarrow> Inr (l # ls)))"

text \<open>What the call did: nothing, or it added \<open>n\<close> transactions and asked for a rerun.\<close>

datatype outcome = Skipped | Added nat

text \<open>
  \<open>processar_recorrentes\<close>.  \<open>f1\<close> and \<open>f2\<close> are the faults of the two writes.  The
  templates are truthy when the list is not empty; a configuration file holding a list
  has no \<open>get\<close>, and a transaction file holding a dictionary has no \<open>extend\<close>.
\<close>

definition processar_recorrentes :: "datetime \<Rightarrow> (nat \<Rightarrow> string) \<Rightarrow> fault \<Rightarrow> fault \<Rightarrow> world
    \<Rightarrow> (exn + outcome) \<times> world" where
  "processar_recorrentes hoje uuid4 f1 f2 w =
     (case load_data RECORRENTES_FILE False w of (recorrentes, w1) \<Rightarrow>
      case load_data LANCAMENTOS_FILE False w1 of (lancamentos, w2) \<Rightarrow>
      case load_data CONFIG_FILE True w2 of (cfg, w3) \<Rightarrow>
      let mes_atual_str = strftime_ym hoje in
      case cfg of
        JList xs \<Rightarrow> (Inl AttributeError, w3)
      | JDict config \<Rightarrow>
          let ultimo_mes_processado =
                (case ultimo_mes_recorrente config of None \<Rightarrow> [] | Some m \<Rightarrow> m)
          in if ultimo_mes_processado = mes_atual_str then (Inr Skipped, w3)
             else (case recorrentes of
                     JDict c \<Rightarrow> if c = empty_config then (Inr Skipped, w3) else (Inl TypeError, w3)
                   | JList [] \<Rightarrow> (Inr Skipped, w3)
                   | JList rs \<Rightarrow>
                       (case novos_lancamentos hoje uuid4 0 rs of
                          Inl e \<Rightarrow> (Inl e, w3)
                        | Inr novos \<Rightarrow>
                            (case lancamentos of
                               JDict c \<Rightarrow> (Inl AttributeError, w3)
                             | JList ls \<Rightarrow>
                                 (case save_data (JList (ls @ map Lanc novos)) LANCAMENTOS_FILE f1 w3 of
                                    (Inl e, w4) \<Rightarrow> (Inl e, w4)
                                  | (Inr u, w4) \<Rightarrow>
                                      (case save_data (JDict (config\<lparr>ultimo_mes_recorrente := Some mes_atual_str\<rparr>))
                                              CONFIG_FILE f2 w4 of
                                         (Inl e, w5) \<Rightarrow> (Inl e, w5)
                                       | (Inr u', w5) \<Rightarrow> (Inr (Added (length novos)), w5)))))))"

subsection \<open>Quotes\<close>

text \<open>
  The answer of \<open>yf.download\<close>, as far as \<open>buscar_cotacoes\<close> reads it: the call raises, or
  it returns a frame that is empty, has plain columns (the last \<open>Close\<close> value, if there is
  such a column) or has columns grouped by field and symbol (the last value of each symbol
  under \<open>Close\<close>, if there is such a group).  A value may be NaN.
\<close>

datatype cell = NaN | Val real

datatype frame = EmptyFrame | Flat "cell option" | Grouped "(string \<rightharpoonup> cell) option"

datatype download = Raises | Returns frame

text \<open>The loop over several symbols.\<close>

fun collect_prices :: "(string \<rightharpoonup> cell) \<Rightarrow> string list \<Rightarrow> (string \<rightharpoonup> real) \<Rightarrow> (string \<rightharpoonup> real)" where
  "collect_prices close [] prices = prices"
| "collect_prices close (ticker_sa # rest) prices =
     (let ticker_original = remove_all ''.SA'' ticker_sa
      in case close ticker_sa of
           Some (Val p) \<Rightarrow> collect_prices close rest (prices(ticker_original \<mapsto> p))
         | _ \<Rightarrow> collect_prices close rest prices)"

text \<open>
  The body of the \<open>try\<close> block.  With one symbol the code expects plain columns: on a
  grouped frame the last \<open>Close\<close> row is a series, whose truth value raises.  With several
  symbols it expects grouped columns: a plain \<open>Close\<close> column has no \<open>columns\<close>, and a
  missing \<open>Close\<close> raises as well.
\<close>

definition try_cotacoes :: "(string list \<Rightarrow> download) \<Rightarrow> string list \<Rightarrow> string list
    \<Rightarrow> exn + (string \<rightharpoonup> real)" where
  "try_cotacoes yf_download tickers tickers_sa =
     (case yf_download tickers_sa of
        Raises \<Rightarrow> Inl ProviderError
      | Returns EmptyFrame \<Rightarrow> Inr Map.empty
      | Returns (Flat close) \<Rightarrow>
          if length tickers_sa = 1 then
            (case close of
               Some (Val last_price) \<Rightarrow> Inr [tickers ! 0 \<mapsto> last_price]
             | _ \<Rightarrow> Inr Map.empty)
          else (case close of None \<Rightarrow> Inl KeyError | Some c \<Rightarrow> Inl AttributeError)
      | Returns (Grouped close) \<Rightarrow>
          if length tickers_sa = 1 then
            (case close of None \<Rightarrow> Inr Map.empty | Some m \<Rightarrow> Inl ValueError)
          else (case close of
                  None \<Rightarrow> Inl KeyError
                | Some m \<Rightarrow> Inr (collect_prices m tickers_sa Map.empty)))"

text \<open>\<open>buscar_cotacoes\<close>: every exception of the block is caught and gives \<open>{}\<close>.\<close>

definition buscar_cotacoes :: "(string list \<Rightarrow> download) \<Rightarrow> string list \<Rightarrow> (string \<rightharpoonup> real)" where
  "buscar_cotacoes yf_download tickers =
     (if tickers = [] then Map.empty
      else let tickers_sa = map (\<lambda>ticker. upper (strip ticker) @ ''.SA'') tickers
           in case try_cotacoes yf_download tickers tickers_sa of
                Inl e \<Rightarrow> Map.empty
              | Inr prices \<Rightarrow> prices)"

subsection \<open>Consolidated position\<close>









subsection \<open>Goals\<close>



section \<open>Notions used in the statements\<close>

text \<open>A cache is coherent with the files when every entry is what the loader would read.\<close>

definition coherent :: "world \<Rightarrow> bool" where
  "coherent w = (\<forall>p b v t. cache w (p, b) = Some (v, t) \<longrightarrow> v = read_json (files w) p b)"

text \<open>The state after the three reads with which \<open>processar_recorrentes\<close> begins.\<close>

definition lidos :: "world \<Rightarrow> world" where
  "lidos w =
     snd (load_data CONFIG_FILE True
       (snd (load_data LANCAMENTOS_FILE False
         (snd (load_data RECORRENTES_FILE False w)))))"


text \<open>The symbol sent to the provider for a ticker.\<close>

definition ticker_sa :: "string \<Rightarrow> string" where
  "ticker_sa ticker = upper (strip ticker) @ ''.SA''"

text \<open>The answer carries the price \<open>p\<close>, not NaN, as the last close of the symbol.\<close>

fun has_quote :: "download \<Rightarrow> string \<Rightarrow> real \<Rightarrow> bool" where
  "has_quote (Returns (Flat (Some (Val q)))) symbol p = (q = p)"
| "has_quote (Returns (Grouped (Some m))) symbol p = (m symbol = Some (Val p))"
| "has_quote answer symbol p = False"

section \<open>Sample data\<close>



definition aluguel :: recorrente where
  "aluguel = \<lparr>r_id = ''r1'', r_tipo = Despesa, r_categoria = ''Aluguel'', r_valor = 1500,
              r_data_base = ''2023-01-31''\<rparr>"

definition reserva :: meta where
  "reserva = \<lparr>m_id = ''m2'', m_nome = ''Reserva'', m_valor_alvo = 1000\<rparr>"

definition mercado :: lancamento where
  "mercado = \<lparr>l_id = ''l1'', l_data = ''2024-03-05'', l_tipo = Despesa,
              l_categoria = ''Mercado'', l_valor = 250, l_descricao = []\<rparr>"

text \<open>A state of the store at second 10: four files, and a cache that still holds the
  goals as they were read at second 0, before \<open>reserva\<close> was there.\<close>

definition mundo :: world where
  "mundo = \<lparr>files = [LANCAMENTOS_FILE \<mapsto> Text (JList []),
                     RECORRENTES_FILE \<mapsto> Text (JList [Rec aluguel]),
                     METAS_FILE \<mapsto> Text (JList [Meta reserva]),
                     CONFIG_FILE \<mapsto> Text (JDict empty_config)],
            cache = [(METAS_FILE, False) \<mapsto> (JList [], 0)],
            clock = 10\<rparr>"

definition abril :: datetime where
  "abril = \<lparr>year = 2024, month = 4, day = 7\<rparr>"

definition aluguel_abril :: "string \<Rightarrow> lancamento" where
  "aluguel_abril uid = \<lparr>l_id = uid, l_data = ''2024-04-30'', l_tipo = Despesa,
     l_categoria = ''Aluguel'', l_valor = 1500, l_descricao = ''(Recorrente) Aluguel''\<rparr>"

text \<open>The state after the first call of April 2024 in \<open>mundo\<close>.\<close>

definition primeira :: world where
  "primeira = \<lparr>files = (files mundo)(LANCAMENTOS_FILE \<mapsto> Text (JList [Lanc (aluguel_abril ''id-1'')]),
                         CONFIG_FILE \<mapsto> Text (JDict (empty_config\<lparr>ultimo_mes_recorrente := Some ''2024-04''\<rparr>))),
       cache = Map.empty, clock = 10\<rparr>"

text \<open>A store without a template file: the loader gives the empty list.\<close>

definition sem_recorrentes :: world where
  "sem_recorrentes = \<lparr>files = [LANCAMENTOS_FILE \<mapsto> Text (JList [Lanc mercado]),
                               CONFIG_FILE \<mapsto> Text (JDict empty_config)],
                      cache = Map.empty, clock = 0\<rparr>"






text \<open>A provider whose grouped answer has a price for one symbol and NaN for another.\<close>

definition duas_cotacoes :: "string list \<Rightarrow> download" where
  "duas_cotacoes tickers_sa = Returns (Grouped (Some [''PETR4.SA'' \<mapsto> Val 30, ''VALE3.SA'' \<mapsto> NaN]))"

definition falha :: "string list \<Rightarrow> download" where
  "falha tickers_sa = Raises"

section \<open>Properties\<close>

subsection \<open>Evaluation rules for the string and date primitives\<close>

lemmas prim_defs =
  lower_def upper_def lower_char_def upper_char_def upper_letters_def lower_letters_def
  decimal_digits_def is_digit_def is_space_def strip_def digit_val_def digits_value_def
  py_int_def py_index_def digit_char_def pad2_def pad4_def strftime_ym_def strftime_ymd_def
  is_leap_def days_in_month_def replace_day_def dia_criacao_def

lemmas path_defs =
  LANCAMENTOS_FILE_def INVESTIMENTOS_FILE_def METAS_FILE_def RECORRENTES_FILE_def
  CONFIG_FILE_def files_to_backup_def backup_path_def basename_def

subsection \<open>Substring test\<close>



subsection \<open>Goal progress\<close>



subsection \<open>Day of a materialised transaction\<close>




lemma novos_lancamentos_length:
  "novos_lancamentos hoje uuid4 i rs = Inr novos \<Longrightarrow> length novos = length rs"
  by (induction rs arbitrary: i novos) (auto split: sum.splits)




subsection \<open>The collection store\<close>

lemma load_data_files [simp]: "files (snd (load_data p b w)) = files w"
  by (simp add: load_data_def Let_def split: option.splits prod.splits)

lemma load_data_clock [simp]: "clock (snd (load_data p b w)) = clock w"
  by (simp add: load_data_def Let_def split: option.splits prod.splits)

lemma load_data_empty_cache:
  "cache w = Map.empty \<Longrightarrow> fst (load_data p b w) = read_json (files w) p b"
  by (simp add: load_data_def Let_def)

lemma load_data_coherent:
  "coherent w \<Longrightarrow> fst (load_data p b w) = read_json (files w) p b"
  by (auto simp: load_data_def Let_def coherent_def split: option.splits)

lemma coherent_load_data: "coherent w \<Longrightarrow> coherent (snd (load_data p b w))"
  by (auto simp: load_data_def Let_def coherent_def split: option.splits)

lemma coherent_clock: "coherent w \<Longrightarrow> coherent (w\<lparr>clock := t\<rparr>)"
  by (simp add: coherent_def)

text \<open>A read does not change what a later read returns, of the same file or of another.\<close>

lemma load_data_again:
  "fst (load_data q c (snd (load_data p b w))) = fst (load_data q c w)"
  by (auto simp: load_data_def Let_def split: option.splits)

lemma save_data_NoFault:
  "save_data dados p NoFault w =
     (Inr (), w\<lparr>files := (files w)(p \<mapsto> Text dados), cache := Map.empty\<rparr>)"
  by (simp add: save_data_def)

lemma save_data_Inr:
  assumes "save_data dados p f w = (Inr u, w')"
  shows "f = NoFault" and "w' = w\<lparr>files := (files w)(p \<mapsto> Text dados), cache := Map.empty\<rparr>"
  using assms by (cases f; simp add: save_data_def)+

text \<open>
  Claim C2.  When a write completes, the file written holds the new value, no entry is left
  in the cache, and a read of any file, the one written or another, returns what that
  file holds after the write.  The cache is then coherent with the files, which later
  reads and the passing of time preserve.
\<close>

theorem cache_invalidation:
  assumes "save_data dados file_path f w = (Inr u, w')"
  shows "files w' = (files w)(file_path \<mapsto> Text dados)
         \<and> cache w' = Map.empty
         \<and> coherent w'
         \<and> (\<forall>q b. fst (load_data q b w') = read_json ((files w)(file_path \<mapsto> Text dados)) q b)"
proof -
  have w': "w' = w\<lparr>files := (files w)(file_path \<mapsto> Text dados), cache := Map.empty\<rparr>"
    using save_data_Inr(2) [OF assms] .
  have "cache w' = Map.empty" using w' by simp
  then have "\<forall>q b. fst (load_data q b w') = read_json (files w') q b"
    by (simp add: load_data_empty_cache)
  then show ?thesis using w' by (simp add: coherent_def)
qed

text \<open>In \<open>mundo\<close> a read of the goals returns the stale entry; after a write to the
  transactions it returns the file.\<close>

theorem cache_invalidation_witness:
  "fst (load_data METAS_FILE False mundo) = JList []
   \<and> fst (load_data METAS_FILE False (snd (save_data (JList [Lanc mercado]) LANCAMENTOS_FILE NoFault mundo)))
       = JList [Meta reserva]
   \<and> fst (load_data LANCAMENTOS_FILE False (snd (save_data (JList [Lanc mercado]) LANCAMENTOS_FILE NoFault mundo)))
       = JList [Lanc mercado]"
proof -
  have s: "save_data (JList [Lanc mercado]) LANCAMENTOS_FILE NoFault mundo
           = (Inr (), snd (save_data (JList [Lanc mercado]) LANCAMENTOS_FILE NoFault mundo))"
    by (simp add: save_data_def)
  have stale: "fst (load_data METAS_FILE False mundo) = JList []"
    by (simp add: load_data_def mundo_def)
  have a: "fst (load_data METAS_FILE False (snd (save_data (JList [Lanc mercado]) LANCAMENTOS_FILE NoFault mundo)))
       = JList [Meta reserva]"
    using cache_invalidation [OF s]
    by (simp add: read_json_def mundo_def path_defs)
  have b: "fst (load_data LANCAMENTOS_FILE False (snd (save_data (JList [Lanc mercado]) LANCAMENTOS_FILE NoFault mundo)))
       = JList [Lanc mercado]"
    using cache_invalidation [OF s]
    by (simp add: read_json_def)
  show ?thesis using stale a b by simp
qed




subsection \<open>Recurring transactions: what a call does\<close>

lemma lidos_files [simp]: "files (lidos w) = files w"
  by (simp add: lidos_def)

lemma lidos_clock [simp]: "clock (lidos w) = clock w"
  by (simp add: lidos_def)

lemma lidos_view [simp]: "fst (load_data q c (lidos w)) = fst (load_data q c w)"
  by (simp add: lidos_def load_data_again)

lemma three_loads:
  "\<exists>w1 w2. load_data RECORRENTES_FILE False w = (fst (load_data RECORRENTES_FILE False w), w1)
     \<and> load_data LANCAMENTOS_FILE False w1 = (fst (load_data LANCAMENTOS_FILE False w), w2)
     \<and> load_data CONFIG_FILE True w2 = (fst (load_data CONFIG_FILE True w), lidos w)"
proof -
  let ?w1 = "snd (load_data RECORRENTES_FILE False w)"
  let ?w2 = "snd (load_data LANCAMENTOS_FILE False ?w1)"
  have "load_data RECORRENTES_FILE False w = (fst (load_data RECORRENTES_FILE False w), ?w1)" by simp
  moreover have "load_data LANCAMENTOS_FILE False ?w1 = (fst (load_data LANCAMENTOS_FILE False w), ?w2)"
    by (metis load_data_again prod.collapse)
  moreover have "load_data CONFIG_FILE True ?w2 = (fst (load_data CONFIG_FILE True w), lidos w)"
    by (metis lidos_def load_data_again prod.collapse)
  ultimately show ?thesis by blast
qed

lemma strftime_ym_nonempty: "strftime_ym hoje \<noteq> []"
  by (simp add: strftime_ym_def pad4_def)

lemma processar_marked:
  assumes "fst (load_data CONFIG_FILE True w) = JDict config"
    and "ultimo_mes_recorrente config = Some (strftime_ym hoje)"
  shows "processar_recorrentes hoje uuid4 f1 f2 w = (Inr Skipped, lidos w)"
proof -
  obtain r l w1 w2 where "load_data RECORRENTES_FILE False w = (r, w1)"
    "load_data LANCAMENTOS_FILE False w1 = (l, w2)"
    "load_data CONFIG_FILE True w2 = (JDict config, lidos w)"
    using three_loads [of w] assms(1) by metis
  then show ?thesis
    unfolding processar_recorrentes_def using assms(2) by (simp add: Let_def)
qed

lemma processar_no_templates:
  assumes "fst (load_data CONFIG_FILE True w) = JDict config"
    and "fst (load_data RECORRENTES_FILE False w) = JList []"
  shows "processar_recorrentes hoje uuid4 f1 f2 w = (Inr Skipped, lidos w)"
proof -
  obtain l w1 w2 where "load_data RECORRENTES_FILE False w = (JList [], w1)"
    "load_data LANCAMENTOS_FILE False w1 = (l, w2)"
    "load_data CONFIG_FILE True w2 = (JDict config, lidos w)"
    using three_loads [of w] assms by metis
  then show ?thesis
    unfolding processar_recorrentes_def by (simp add: Let_def)
qed

lemma processar_writes:
  assumes "fst (load_data CONFIG_FILE True w) = JDict config"
    and "ultimo_mes_recorrente config \<noteq> Some (strftime_ym hoje)"
    and "fst (load_data RECORRENTES_FILE False w) = JList rs" and "rs \<noteq> []"
    and "fst (load_data LANCAMENTOS_FILE False w) = JList ls"
    and "novos_lancamentos hoje uuid4 0 rs = Inr novos"
  shows "processar_recorrentes hoje uuid4 f1 f2 w =
     (case save_data (JList (ls @ map Lanc novos)) LANCAMENTOS_FILE f1 (lidos w) of
        (Inl e, w4) \<Rightarrow> (Inl e, w4)
      | (Inr u, w4) \<Rightarrow>
          (case save_data (JDict (config\<lparr>ultimo_mes_recorrente := Some (strftime_ym hoje)\<rparr>)) CONFIG_FILE f2 w4 of
             (Inl e, w5) \<Rightarrow> (Inl e, w5)
           | (Inr u', w5) \<Rightarrow> (Inr (Added (length novos)), w5)))"
proof -
  obtain w1 w2 where l: "load_data RECORRENTES_FILE False w = (JList rs, w1)"
    "load_data LANCAMENTOS_FILE False w1 = (JList ls, w2)"
    "load_data CONFIG_FILE True w2 = (JDict config, lidos w)"
    using three_loads [of w] assms(1,3,5) by metis
  obtain r rest where rs: "rs = r # rest" using assms(4) by (cases rs) auto
  have m: "(case ultimo_mes_recorrente config of None \<Rightarrow> [] | Some m \<Rightarrow> m) \<noteq> strftime_ym hoje"
    using assms(2) strftime_ym_nonempty [of hoje] by (cases "ultimo_mes_recorrente config") auto
  show ?thesis
    unfolding processar_recorrentes_def using l m assms(6) rs
    by (simp add: Let_def split: prod.splits sum.splits)
qed

lemma processar_Added:
  assumes "processar_recorrentes hoje uuid4 f1 f2 w = (Inr (Added n), w')"
  shows "cache w' = Map.empty \<and> (\<exists>config. files w' CONFIG_FILE = Some (Text (JDict config))
           \<and> ultimo_mes_recorrente config = Some (strftime_ym hoje))"
  using assms unfolding processar_recorrentes_def
  by (auto simp: Let_def split: prod.splits json.splits list.splits sum.splits if_splits dest!: save_data_Inr(2))

lemma processar_ok:
  assumes "fst (load_data CONFIG_FILE True w) = JDict config"
    and "ultimo_mes_recorrente config \<noteq> Some (strftime_ym hoje)"
    and "fst (load_data RECORRENTES_FILE False w) = JList rs" and "rs \<noteq> []"
    and "fst (load_data LANCAMENTOS_FILE False w) = JList ls"
    and "novos_lancamentos hoje uuid4 0 rs = Inr novos"
  shows "processar_recorrentes hoje uuid4 NoFault NoFault w =
     (Inr (Added (length rs)),
      \<lparr>files = (files w)(LANCAMENTOS_FILE \<mapsto> Text (JList (ls @ map Lanc novos)),
                         CONFIG_FILE \<mapsto> Text (JDict (config\<lparr>ultimo_mes_recorrente := Some (strftime_ym hoje)\<rparr>))),
       cache = Map.empty, clock = clock w\<rparr>)"
  using processar_writes [OF assms, of NoFault NoFault] novos_lancamentos_length [OF assms(6)]
  by (simp add: save_data_def)




lemma paths_distinct:
  "LANCAMENTOS_FILE \<noteq> CONFIG_FILE" "RECORRENTES_FILE \<noteq> CONFIG_FILE"
  "RECORRENTES_FILE \<noteq> LANCAMENTOS_FILE" "CONFIG_FILE \<noteq> LANCAMENTOS_FILE"
  "CONFIG_FILE \<noteq> RECORRENTES_FILE" "LANCAMENTOS_FILE \<noteq> RECORRENTES_FILE"
  by (simp_all add: path_defs)

lemma mundo_views:
  "fst (load_data CONFIG_FILE True mundo) = JDict empty_config"
  "fst (load_data RECORRENTES_FILE False mundo) = JList [Rec aluguel]"
  "fst (load_data LANCAMENTOS_FILE False mundo) = JList []"
  by (simp_all add: load_data_def read_json_def mundo_def path_defs Let_def)

lemma novos_aluguel: "novos_lancamentos abril (\<lambda>i. uid) 0 [Rec aluguel] = Inr [aluguel_abril uid]"
proof -
  have "dia_criacao aluguel = Inr 31" by (simp add: aluguel_def prim_defs)
  then have "novo_lancamento abril uid (Rec aluguel) = Inr (aluguel_abril uid)"
    by (simp add: novo_lancamento_def abril_def aluguel_abril_def aluguel_def prim_defs)
  then show ?thesis by simp
qed

lemma mes_abril: "strftime_ym abril = ''2024-04''"
  by (simp add: abril_def prim_defs)

subsection \<open>Materialisation once per month\<close>

text \<open>
  Claim C1.  When the configuration that \<open>processar_recorrentes\<close> reads names the current
  month, the call does nothing: no file changes, and the transactions read afterwards are
  the ones read before.  That is the state after a call that added transactions: such a
  call has written the month and emptied the cache, so a later call in the same month,
  at any time and whatever the templates then are, adds nothing.
\<close>

theorem materialization_idempotent:
  "(fst (load_data CONFIG_FILE True w) = JDict config
      \<and> ultimo_mes_recorrente config = Some (strftime_ym hoje)
    \<longrightarrow> fst (processar_recorrentes hoje ids fa fb w) = Inr Skipped
        \<and> files (snd (processar_recorrentes hoje ids fa fb w)) = files w
        \<and> fst (load_data LANCAMENTOS_FILE False (snd (processar_recorrentes hoje ids fa fb w)))
            = fst (load_data LANCAMENTOS_FILE False w))
   \<and> (processar_recorrentes hoje_antes ids_antes ga gb w_antes = (Inr (Added n), w)
      \<and> strftime_ym hoje = strftime_ym hoje_antes
    \<longrightarrow> fst (processar_recorrentes hoje ids fa fb (w\<lparr>clock := t\<rparr>)) = Inr Skipped
        \<and> files (snd (processar_recorrentes hoje ids fa fb (w\<lparr>clock := t\<rparr>))) = files w)"
proof (intro conjI impI)
  assume a: "fst (load_data CONFIG_FILE True w) = JDict config
      \<and> ultimo_mes_recorrente config = Some (strftime_ym hoje)"
  then have p: "processar_recorrentes hoje ids fa fb w = (Inr Skipped, lidos w)"
    by (simp add: processar_marked)
  show "fst (processar_recorrentes hoje ids fa fb w) = Inr Skipped" using p by simp
  show "files (snd (processar_recorrentes hoje ids fa fb w)) = files w" using p by simp
  show "fst (load_data LANCAMENTOS_FILE False (snd (processar_recorrentes hoje ids fa fb w)))
            = fst (load_data LANCAMENTOS_FILE False w)" using p by simp
next
  assume b: "processar_recorrentes hoje_antes ids_antes ga gb w_antes = (Inr (Added n), w)
      \<and> strftime_ym hoje = strftime_ym hoje_antes"
  then obtain cfg where c: "cache w = Map.empty" "files w CONFIG_FILE = Some (Text (JDict cfg))"
      "ultimo_mes_recorrente cfg = Some (strftime_ym hoje)"
    using processar_Added [of hoje_antes ids_antes ga gb w_antes n w] by auto
  have "fst (load_data CONFIG_FILE True (w\<lparr>clock := t\<rparr>)) = JDict cfg"
    using c(1,2) by (simp add: load_data_empty_cache read_json_def)
  then have p: "processar_recorrentes hoje ids fa fb (w\<lparr>clock := t\<rparr>) = (Inr Skipped, lidos (w\<lparr>clock := t\<rparr>))"
    using c(3) by (simp add: processar_marked)
  show "fst (processar_recorrentes hoje ids fa fb (w\<lparr>clock := t\<rparr>)) = Inr Skipped" using p by simp
  show "files (snd (processar_recorrentes hoje ids fa fb (w\<lparr>clock := t\<rparr>))) = files w" using p by simp
qed

lemma primeira_run: "processar_recorrentes abril (\<lambda>i. ''id-1'') NoFault NoFault mundo = (Inr (Added 1), primeira)"
proof -
  have "ultimo_mes_recorrente empty_config \<noteq> Some (strftime_ym abril)" by (simp add: empty_config_def)
  from processar_ok [OF mundo_views(1) this mundo_views(2) _ mundo_views(3) novos_aluguel]
  show ?thesis by (simp add: primeira_def mes_abril mundo_def)
qed

theorem materialization_idempotent_witness:
  "processar_recorrentes abril (\<lambda>i. ''id-1'') NoFault NoFault mundo = (Inr (Added 1), primeira)
   \<and> fst (processar_recorrentes (abril\<lparr>day := 8\<rparr>) (\<lambda>i. ''id-2'') NoFault NoFault (primeira\<lparr>clock := 86410\<rparr>)) = Inr Skipped
   \<and> files (snd (processar_recorrentes (abril\<lparr>day := 8\<rparr>) (\<lambda>i. ''id-2'') NoFault NoFault (primeira\<lparr>clock := 86410\<rparr>)))
        LANCAMENTOS_FILE = Some (Text (JList [Lanc (aluguel_abril ''id-1'')]))"
proof -
  have m: "strftime_ym (abril\<lparr>day := 8\<rparr>) = strftime_ym abril" by (simp add: strftime_ym_def)
  have "fst (processar_recorrentes (abril\<lparr>day := 8\<rparr>) (\<lambda>i. ''id-2'') NoFault NoFault (primeira\<lparr>clock := 86410\<rparr>)) = Inr Skipped
        \<and> files (snd (processar_recorrentes (abril\<lparr>day := 8\<rparr>) (\<lambda>i. ''id-2'') NoFault NoFault (primeira\<lparr>clock := 86410\<rparr>))) = files primeira"
    using materialization_idempotent [where w = primeira and hoje = "abril\<lparr>day := 8\<rparr>"
        and ids = "\<lambda>i. ''id-2''" and fa = NoFault and fb = NoFault and hoje_antes = abril
        and ids_antes = "\<lambda>i. ''id-1''" and ga = NoFault and gb = NoFault and w_antes = mundo
        and n = 1 and t = 86410]
      primeira_run m by simp
  then show ?thesis using primeira_run by (simp add: primeira_def paths_distinct)
qed

subsection \<open>No templates\<close>

lemma processar_after_new_templates:
  assumes "rs \<noteq> []"
    and "read_json (files w) LANCAMENTOS_FILE False = JList ls"
    and "read_json (files w) CONFIG_FILE True = JDict cfg"
    and "ultimo_mes_recorrente cfg \<noteq> Some (strftime_ym hoje)"
    and "novos_lancamentos hoje ids 0 rs = Inr novos"
    and "files w' = files w"
  shows "processar_recorrentes hoje ids NoFault NoFault (snd (save_data (JList rs) RECORRENTES_FILE NoFault w'))
     = (Inr (Added (length rs)),
        \<lparr>files = (files w)(RECORRENTES_FILE \<mapsto> Text (JList rs),
                           LANCAMENTOS_FILE \<mapsto> Text (JList (ls @ map Lanc novos)),
                           CONFIG_FILE \<mapsto> Text (JDict (cfg\<lparr>ultimo_mes_recorrente := Some (strftime_ym hoje)\<rparr>))),
         cache = Map.empty, clock = clock w'\<rparr>)"
proof -
  let ?v = "snd (save_data (JList rs) RECORRENTES_FILE NoFault w')"
  have v: "files ?v = (files w)(RECORRENTES_FILE \<mapsto> Text (JList rs))" "cache ?v = Map.empty" "clock ?v = clock w'"
    using assms(6) by (simp_all add: save_data_def)
  have c: "fst (load_data CONFIG_FILE True ?v) = JDict cfg"
    using v(1,2) assms(3) by (simp add: load_data_empty_cache read_json_def paths_distinct)
  have r: "fst (load_data RECORRENTES_FILE False ?v) = JList rs"
    using v(1,2) by (simp add: load_data_empty_cache read_json_def)
  have l: "fst (load_data LANCAMENTOS_FILE False ?v) = JList ls"
    using v(1,2) assms(2) by (simp add: load_data_empty_cache read_json_def paths_distinct)
  show ?thesis
    using processar_ok [OF c assms(4) r assms(1) l assms(5)] v by simp
qed

text \<open>
  Claim C10.  When the list of templates read is empty (and the configuration is a
  dictionary), the call does nothing: no file changes, in particular not the
  configuration, whose month stays as it was, and the transactions and configuration
  read afterwards are the ones read before.  So when templates are saved later and the
  month on file is still not the current one, the next call materialises each of them.
\<close>

theorem zero_templates_noop:
  assumes "fst (load_data CONFIG_FILE True w) = JDict config"
    and "fst (load_data RECORRENTES_FILE False w) = JList []"
  shows "fst (processar_recorrentes hoje ids fa fb w) = Inr Skipped
     \<and> files (snd (processar_recorrentes hoje ids fa fb w)) = files w
     \<and> fst (load_data LANCAMENTOS_FILE False (snd (processar_recorrentes hoje ids fa fb w)))
         = fst (load_data LANCAMENTOS_FILE False w)
     \<and> fst (load_data CONFIG_FILE True (snd (processar_recorrentes hoje ids fa fb w))) = JDict config
     \<and> (\<forall>rs ls cfg novos ids'.
          rs \<noteq> []
          \<and> read_json (files w) LANCAMENTOS_FILE False = JList ls
          \<and> read_json (files w) CONFIG_FILE True = JDict cfg
          \<and> ultimo_mes_recorrente cfg \<noteq> Some (strftime_ym hoje)
          \<and> novos_lancamentos hoje ids' 0 rs = Inr novos
          \<longrightarrow> fst (processar_recorrentes hoje ids' NoFault NoFault
                    (snd (save_data (JList rs) RECORRENTES_FILE NoFault
                       (snd (processar_recorrentes hoje ids fa fb w)))))
                = Inr (Added (length rs))
              \<and> files (snd (processar_recorrentes hoje ids' NoFault NoFault
                    (snd (save_data (JList rs) RECORRENTES_FILE NoFault
                       (snd (processar_recorrentes hoje ids fa fb w)))))) LANCAMENTOS_FILE
                = Some (Text (JList (ls @ map Lanc novos))))"
proof -
  have p: "processar_recorrentes hoje ids fa fb w = (Inr Skipped, lidos w)"
    using assms by (rule processar_no_templates)
  have later: "fst (processar_recorrentes hoje ids' NoFault NoFault
                    (snd (save_data (JList rs) RECORRENTES_FILE NoFault (lidos w))))
                = Inr (Added (length rs))
              \<and> files (snd (processar_recorrentes hoje ids' NoFault NoFault
                    (snd (save_data (JList rs) RECORRENTES_FILE NoFault (lidos w))))) LANCAMENTOS_FILE
                = Some (Text (JList (ls @ map Lanc novos)))"
    if "rs \<noteq> []" "read_json (files w) LANCAMENTOS_FILE False = JList ls"
      "read_json (files w) CONFIG_FILE True = JDict cfg"
      "ultimo_mes_recorrente cfg \<noteq> Some (strftime_ym hoje)"
      "novos_lancamentos hoje ids' 0 rs = Inr novos"
    for rs ls cfg novos ids'
    using processar_after_new_templates [OF that, of "lidos w"] by (simp add: paths_distinct)
  show ?thesis using assms(1) later unfolding p by auto
qed

theorem zero_templates_noop_witness:
  "fst (load_data RECORRENTES_FILE False sem_recorrentes) = JList []
   \<and> fst (processar_recorrentes abril (\<lambda>i. ''id-1'') NoFault NoFault sem_recorrentes) = Inr Skipped
   \<and> files (snd (processar_recorrentes abril (\<lambda>i. ''id-1'') NoFault NoFault sem_recorrentes)) CONFIG_FILE
       = Some (Text (JDict empty_config))
   \<and> files (snd (processar_recorrentes abril (\<lambda>i. ''id-2'') NoFault NoFault
        (snd (save_data (JList [Rec aluguel]) RECORRENTES_FILE NoFault
           (snd (processar_recorrentes abril (\<lambda>i. ''id-1'') NoFault NoFault sem_recorrentes)))))) LANCAMENTOS_FILE
       = Some (Text (JList [Lanc mercado, Lanc (aluguel_abril ''id-2'')]))"
proof -
  have c: "fst (load_data CONFIG_FILE True sem_recorrentes) = JDict empty_config"
    by (simp add: load_data_def read_json_def sem_recorrentes_def Let_def)
  have r: "fst (load_data RECORRENTES_FILE False sem_recorrentes) = JList []"
    by (simp add: load_data_def read_json_def sem_recorrentes_def Let_def path_defs)
  have l: "read_json (files sem_recorrentes) LANCAMENTOS_FILE False = JList [Lanc mercado]"
    by (simp add: read_json_def sem_recorrentes_def paths_distinct)
  have g: "read_json (files sem_recorrentes) CONFIG_FILE True = JDict empty_config"
    by (simp add: read_json_def sem_recorrentes_def)
  have m: "ultimo_mes_recorrente empty_config \<noteq> Some (strftime_ym abril)"
    by (simp add: empty_config_def)
  have n: "novos_lancamentos abril (\<lambda>i. ''id-2'') 0 [Rec aluguel] = Inr [aluguel_abril ''id-2'']"
    by (rule novos_aluguel)
  have f: "files sem_recorrentes CONFIG_FILE = Some (Text (JDict empty_config))"
    by (simp add: sem_recorrentes_def)
  show ?thesis
    using zero_templates_noop [OF c r, of abril "\<lambda>i. ''id-1''" NoFault NoFault] r l g m n f
    by simp
qed

subsection \<open>Failing writes during materialisation\<close>







subsection \<open>Daily backup\<close>







subsection \<open>Consolidated position\<close>








subsection \<open>Quotes\<close>

lemma collect_prices_Some:
  assumes "collect_prices m symbols prices k = Some p"
  shows "prices k = Some p \<or> (\<exists>s\<in>set symbols. m s = Some (Val p) \<and> k = remove_all ''.SA'' s)"
  using assms
proof (induction symbols arbitrary: prices)
  case Nil
  then show ?case by simp
next
  case (Cons s symbols)
  show ?case
  proof (cases "m s")
    case None
    then show ?thesis using Cons.IH [of prices] Cons.prems by auto
  next
    case (Some c)
    show ?thesis
    proof (cases c)
      case NaN
      then show ?thesis using Some Cons.IH [of prices] Cons.prems by auto
    next
      case (Val q)
      then have "collect_prices m symbols (prices(remove_all ''.SA'' s \<mapsto> q)) k = Some p"
        using Some Cons.prems by (simp add: Let_def)
      from Cons.IH [OF this] show ?thesis using Some Val by (auto split: if_splits)
    qed
  qed
qed

lemma buscar_cotacoes_sa:
  "buscar_cotacoes yf_download tickers =
     (if tickers = [] then Map.empty
      else case try_cotacoes yf_download tickers (map ticker_sa tickers) of
             Inl e \<Rightarrow> Map.empty | Inr prices \<Rightarrow> prices)"
proof -
  have "(\<lambda>ticker. upper (strip ticker) @ ''.SA'') = ticker_sa" by (auto simp: ticker_sa_def)
  then show ?thesis by (simp add: buscar_cotacoes_def Let_def)
qed

lemma buscar_cotacoes_Some:
  assumes "buscar_cotacoes yf_download tickers k = Some p"
  shows "\<exists>t\<in>set tickers. has_quote (yf_download (map ticker_sa tickers)) (ticker_sa t) p
           \<and> (k = t \<or> k = remove_all ''.SA'' (ticker_sa t))"
proof -
  have ne: "tickers \<noteq> []" using assms by (auto simp: buscar_cotacoes_sa)
  then obtain prices where t: "try_cotacoes yf_download tickers (map ticker_sa tickers) = Inr prices"
    and k: "prices k = Some p"
    using assms by (auto simp: buscar_cotacoes_sa split: sum.splits)
  show ?thesis
  proof (cases "yf_download (map ticker_sa tickers)")
    case Raises
    then show ?thesis using t by (simp add: try_cotacoes_def)
  next
    case (Returns fr)
    show ?thesis
    proof (cases fr)
      case EmptyFrame
      then have "prices = Map.empty" using t Returns by (simp add: try_cotacoes_def)
      then show ?thesis using k by simp
    next
      case (Flat close)
      then have one: "length tickers = 1" and c: "close = Some (Val p)" and key: "k = tickers ! 0"
        using t k Returns
        by (auto simp: try_cotacoes_def split: if_splits option.splits cell.splits)
      from one obtain t0 where "tickers = [t0]" by (cases tickers) auto
      then show ?thesis using c key Returns Flat by simp
    next
      case (Grouped close)
      then obtain m where m: "close = Some m" and p: "prices = collect_prices m (map ticker_sa tickers) Map.empty"
        using t k Returns by (auto simp: try_cotacoes_def split: if_splits option.splits)
      from collect_prices_Some [of m "map ticker_sa tickers" Map.empty k p] k p
      obtain s where "s \<in> set (map ticker_sa tickers)" "m s = Some (Val p)" "k = remove_all ''.SA'' s"
        by auto
      then show ?thesis using Returns Grouped m by auto
    qed
  qed
qed

text \<open>
  Claim C7.  \<open>buscar_cotacoes\<close> returns a mapping for every list of tickers and every
  behaviour of the provider: whatever exception the block raises, the result is the
  empty mapping, and so it is when the provider raises or returns an empty frame.  Every
  entry of the result is the price, not NaN, that the answer carries for the symbol of a
  requested ticker, stored under that ticker (one ticker) or under the symbol without
  \<open>.SA\<close> (several).  So a ticker has no entry when no requested symbol stored under its
  name has a usable quote.
\<close>

theorem price_lookup_graceful:
  "(\<forall>e. try_cotacoes yf_download tickers (map ticker_sa tickers) = Inl e
        \<longrightarrow> buscar_cotacoes yf_download tickers = Map.empty)
   \<and> (yf_download (map ticker_sa tickers) = Raises \<longrightarrow> buscar_cotacoes yf_download tickers = Map.empty)
   \<and> (yf_download (map ticker_sa tickers) = Returns EmptyFrame
        \<longrightarrow> buscar_cotacoes yf_download tickers = Map.empty)
   \<and> (\<forall>k p. buscar_cotacoes yf_download tickers k = Some p \<longrightarrow>
         (\<exists>t\<in>set tickers. has_quote (yf_download (map ticker_sa tickers)) (ticker_sa t) p
            \<and> (k = t \<or> k = remove_all ''.SA'' (ticker_sa t))))
   \<and> (\<forall>t. (\<forall>t'\<in>set tickers. t' = t \<or> remove_all ''.SA'' (ticker_sa t') = t
                \<longrightarrow> (\<forall>p. \<not> has_quote (yf_download (map ticker_sa tickers)) (ticker_sa t') p))
         \<longrightarrow> buscar_cotacoes yf_download tickers t = None)"
proof (intro conjI allI impI)
  fix e
  assume "try_cotacoes yf_download tickers (map ticker_sa tickers) = Inl e"
  then show "buscar_cotacoes yf_download tickers = Map.empty" by (simp add: buscar_cotacoes_sa)
next
  assume "yf_download (map ticker_sa tickers) = Raises"
  then show "buscar_cotacoes yf_download tickers = Map.empty"
    by (simp add: buscar_cotacoes_sa try_cotacoes_def)
next
  assume "yf_download (map ticker_sa tickers) = Returns EmptyFrame"
  then show "buscar_cotacoes yf_download tickers = Map.empty"
    by (simp add: buscar_cotacoes_sa try_cotacoes_def)
next
  fix k p
  assume "buscar_cotacoes yf_download tickers k = Some p"
  then show "\<exists>t\<in>set tickers. has_quote (yf_download (map ticker_sa tickers)) (ticker_sa t) p
            \<and> (k = t \<or> k = remove_all ''.SA'' (ticker_sa t))"
    by (rule buscar_cotacoes_Some)
next
  fix t
  assume a: "\<forall>t'\<in>set tickers. t' = t \<or> remove_all ''.SA'' (ticker_sa t') = t
                \<longrightarrow> (\<forall>p. \<not> has_quote (yf_download (map ticker_sa tickers)) (ticker_sa t') p)"
  show "buscar_cotacoes yf_download tickers t = None"
  proof (rule ccontr)
    assume "buscar_cotacoes yf_download tickers t \<noteq> None"
    then obtain p where "buscar_cotacoes yf_download tickers t = Some p" by auto
    from buscar_cotacoes_Some [OF this] a show False by blast
  qed
qed

lemma tickers_sa_tres:
  "map ticker_sa [''PETR4'', ''VALE3'', ''mglu3 ''] = [''PETR4.SA'', ''VALE3.SA'', ''MGLU3.SA'']"
  by (simp add: ticker_sa_def prim_defs)

theorem price_lookup_graceful_witness:
  "buscar_cotacoes duas_cotacoes [''PETR4'', ''VALE3'', ''mglu3 ''] ''PETR4'' = Some 30
   \<and> buscar_cotacoes duas_cotacoes [''PETR4'', ''VALE3'', ''mglu3 ''] ''VALE3'' = None
   \<and> buscar_cotacoes duas_cotacoes [''PETR4'', ''VALE3'', ''mglu3 ''] ''MGLU3'' = None
   \<and> buscar_cotacoes falha [''PETR4'', ''VALE3'', ''mglu3 ''] = Map.empty"
proof -
  let ?ts = "[''PETR4'', ''VALE3'', ''mglu3 '']"
  have a: "buscar_cotacoes duas_cotacoes ?ts ''PETR4'' = Some 30"
    unfolding buscar_cotacoes_sa tickers_sa_tres
    by (simp add: try_cotacoes_def duas_cotacoes_def)
  have r: "remove_all ''.SA'' ''PETR4.SA'' = ''PETR4''" "remove_all ''.SA'' ''VALE3.SA'' = ''VALE3''"
    "remove_all ''.SA'' ''MGLU3.SA'' = ''MGLU3''"
    by simp_all
  have s: "ticker_sa ''PETR4'' = ''PETR4.SA''" "ticker_sa ''VALE3'' = ''VALE3.SA''"
    "ticker_sa ''mglu3 '' = ''MGLU3.SA''"
    using tickers_sa_tres by simp_all
  note t = price_lookup_graceful [of duas_cotacoes ?ts]
  have v: "\<forall>t'\<in>set ?ts. t' = ''VALE3'' \<or> remove_all ''.SA'' (ticker_sa t') = ''VALE3''
                \<longrightarrow> (\<forall>p. \<not> has_quote (duas_cotacoes (map ticker_sa ?ts)) (ticker_sa t') p)"
    by (simp add: s r duas_cotacoes_def)
  have m: "\<forall>t'\<in>set ?ts. t' = ''MGLU3'' \<or> remove_all ''.SA'' (ticker_sa t') = ''MGLU3''
                \<longrightarrow> (\<forall>p. \<not> has_quote (duas_cotacoes (map ticker_sa ?ts)) (ticker_sa t') p)"
    by (simp add: s r duas_cotacoes_def)
  have b: "buscar_cotacoes duas_cotacoes ?ts ''VALE3'' = None" using t v by blast
  have c: "buscar_cotacoes duas_cotacoes ?ts ''MGLU3'' = None" using t m by blast
  have d: "buscar_cotacoes falha ?ts = Map.empty"
    using price_lookup_graceful [of falha ?ts] by (simp add: falha_def)
  show ?thesis using a b c d by simp
qed

end
